theory Spec2Isabelle
  imports Main "HOL-Library.Word" "HOL-Library.Sublist"
begin

section \<open>The producer of memphis.go (producer.go)\<close>

text \<open>
  A shallow embedding of \<^verbatim>\<open>producer.go\<close>. Go values that are shared by reference
  (the header map behind a \<^verbatim>\<open>Headers\<close> struct, the connection behind a producer) are
  threaded explicitly: every function takes the state it reads and returns the state it
  leaves. A Go \<^verbatim>\<open>error\<close> result is an \<open>error option\<close> (\<open>None\<close> is \<^verbatim>\<open>nil\<close>), a pair
  \<^verbatim>\<open>(value, error)\<close> is a sum with \<open>Inl\<close> for the error, and a call that does not
  return normally is an \<open>outcome\<close> other than \<open>Returns\<close>.
\<close>

subsection \<open>Values, errors and outcomes\<close>

type_synonym byte = "8 word"

text \<open>Nanoseconds in a signed 64-bit integer, as \<^verbatim>\<open>time.Duration\<close>; \<open>*\<close> wraps.\<close>

type_synonym Duration = "64 word"

text \<open>
  \<open>ErrorsNew s\<close> is \<^verbatim>\<open>errors.New(s)\<close>; \<open>Foreign s\<close> is an error value made outside this
  file (the transport, the JSON decoder, the random source).
\<close>

datatype error = ErrorsNew string | Foreign string

text \<open>
  The ways a call in this file ends without returning: \<^verbatim>\<open>panic(err)\<close> in
  \<^verbatim>\<open>Destroy\<close>, the runtime panics of Go (a write to a nil map, a call of a nil function
  value, a send through a missing relay entry), and a \<^verbatim>\<open>select\<close> none of whose
  channels ever delivers.
\<close>

datatype panic = PanicError error | NilMapAssignment | NilFuncCall | NoRelayEntry

datatype 'a outcome = Returns 'a | Panics panic | Blocks

text \<open>
  A value of the Go type \<^verbatim>\<open>any\<close>, as far as the type switch of \<^verbatim>\<open>validateMsg\<close>
  tells values apart: a \<^verbatim>\<open>[]byte\<close>, or a value of some other dynamic type.
\<close>

datatype any = ByteSlice "byte list" | StringVal string | IntVal int | NilVal
  | StructVal string "byte list"

subsection \<open>The declared types\<close>

record Producer =
  Name :: string
  stationName :: string

record createProducerReq =
  req_Name :: string
  req_StationName :: string
  req_ConnectionId :: string
  req_ProducerType :: string

datatype SchemaUpdateType = SchemaUpdateTypeInit | SchemaUpdateTypeDrop

text \<open>The constants are \<^verbatim>\<open>iota + 1\<close> and the next one.\<close>

fun SchemaUpdateType_int :: "SchemaUpdateType \<Rightarrow> int" where
  "SchemaUpdateType_int SchemaUpdateTypeInit = 1"
| "SchemaUpdateType_int SchemaUpdateTypeDrop = 2"

record SchemaVersion =
  VersionNumber :: int
  Descriptor :: string
  MessageStructName :: string

record SchemaUpdateInit =
  SchemaName :: string
  Versions :: "SchemaVersion list"
  ActiveVersionIdx :: int
  SchemaType :: string

record SchemaUpdate =
  UpdateType :: SchemaUpdateType
  Init :: SchemaUpdateInit

record createProducerResp =
  resp_SchemaUpdateInit :: SchemaUpdateInit
  resp_Err :: string

record removeProducerReq =
  rm_Name :: string
  rm_StationName :: string

record ProducerOpts =
  GenUniqueSuffix :: bool

subsection \<open>Header maps\<close>

text \<open>
  A Go map is a reference. The store holds the map objects, \<open>nextRef\<close> is the first
  reference never handed out, and a \<^verbatim>\<open>Headers\<close> struct holds a reference or
  \<^verbatim>\<open>nil\<close> (\<open>None\<close>), which is its zero value. Copying the struct copies the
  reference, so both copies write to one map.
\<close>

type_synonym hmap = "string \<rightharpoonup> string list"

record store =
  maps :: "nat \<Rightarrow> hmap"
  nextRef :: nat

record Headers =
  MsgHeaders :: "nat option"

definition make_map :: "store \<Rightarrow> nat \<times> store" where
  "make_map s = (nextRef s, s\<lparr>maps := (maps s)(nextRef s := Map.empty), nextRef := Suc (nextRef s)\<rparr>)"

text \<open>\<^verbatim>\<open>m[key] = vs\<close>: a panic on the nil map, a write to the shared object otherwise.\<close>

definition map_assign :: "nat option \<Rightarrow> string \<Rightarrow> string list \<Rightarrow> store \<Rightarrow> unit outcome \<times> store" where
  "map_assign r key vs s =
     (case r of
        None \<Rightarrow> (Panics NilMapAssignment, s)
      | Some a \<Rightarrow> (Returns (), s\<lparr>maps := (maps s)(a := (maps s a)(key \<mapsto> vs))\<rparr>))"

definition validateHeaderKey :: "string \<Rightarrow> error option" where
  "validateHeaderKey key =
     (if prefix ''$memphis'' key
      then Some (ErrorsNew ''Keys in headers should not start with $memphis'')
      else None)"

definition New :: "Headers \<Rightarrow> store \<Rightarrow> Headers \<times> store" where
  "New hdr s = (case make_map s of (a, s') \<Rightarrow> (hdr\<lparr>MsgHeaders := Some a\<rparr>, s'))"

definition Add :: "Headers \<Rightarrow> string \<Rightarrow> string \<Rightarrow> store \<Rightarrow> error option outcome \<times> store" where
  "Add hdr key v s =
     (case validateHeaderKey key of
        Some err \<Rightarrow> (Returns (Some err), s)
      | None \<Rightarrow>
          (case map_assign (MsgHeaders hdr) key [v] s of
             (Returns u, s') \<Rightarrow> (Returns None, s')
           | (Panics pn, s') \<Rightarrow> (Panics pn, s')
           | (Blocks, s') \<Rightarrow> (Blocks, s')))"

subsection \<open>Control subjects\<close>

definition schemaUpdatesSubjectTemplate :: string where
  "schemaUpdatesSubjectTemplate = ''$memphis_schema_updates_%s''"

definition getCreationSubject :: "Producer \<Rightarrow> string" where
  "getCreationSubject p = ''$memphis_producer_creations''"

definition getDestructionSubject :: "Producer \<Rightarrow> string" where
  "getDestructionSubject p = ''$memphis_producer_destructions''"

text \<open>
  \<^verbatim>\<open>fmt.Sprintf(template, arg)\<close> for a template with the verb \<^verbatim>\<open>%s\<close> and one string
  argument: the first \<^verbatim>\<open>%s\<close> is replaced by the argument.
\<close>

fun Sprintf_s :: "string \<Rightarrow> string \<Rightarrow> string" where
  "Sprintf_s [] arg = []"
| "Sprintf_s [c] arg = [c]"
| "Sprintf_s (c # d # rest) arg =
     (if c = CHR ''%'' \<and> d = CHR ''s'' then arg @ rest else c # Sprintf_s (d # rest) arg)"

definition getDestructionReq :: "Producer \<Rightarrow> removeProducerReq" where
  "getDestructionReq p = \<lparr>rm_Name = Name p, rm_StationName = stationName p\<rparr>"

subsection \<open>The connection and its collaborators\<close>

text \<open>
  Modelled from the spec: the declarations of \<^verbatim>\<open>Conn\<close> and of the per-station relay
  state are absent from \<^verbatim>\<open>src/\<close>. The connection has the identifier that
  \<^verbatim>\<open>produce\<close> and \<^verbatim>\<open>getCreationReq\<close> read, the mapping from station name to the
  station's relay state that \<^verbatim>\<open>handleCreationResp\<close> indexes, and the transport's own
  state \<open>brokerConn\<close>, of which this file knows nothing. The relay's event channel is
  "unbounded (or sufficiently buffered)": a queue, to which a send appends.
\<close>

record stationUpdateSub =
  schemaUpdateCh :: "SchemaUpdate list"

record 'b Conn =
  ConnId :: string
  stationUpdatesSubs :: "string \<rightharpoonup> stationUpdateSub"
  brokerConn :: 'b

record schemaDetails =
  schemaType :: string

record natsMsg =
  Header :: hmap
  Subject :: string
  Data :: "byte list"

text \<open>
  How the acknowledgement future of a publish resolves: a value on \<^verbatim>\<open>paf.Ok()\<close>, an
  error on \<^verbatim>\<open>paf.Err()\<close>, or neither, ever.
\<close>

datatype PubAckFuture = AckOk | AckErr error | AckNever

text \<open>
  The functions that \<^verbatim>\<open>producer.go\<close> calls and that are defined elsewhere
  (\<^verbatim>\<open>crypto/rand\<close>, \<^verbatim>\<open>encoding/json\<close>, the connection's methods and the schema
  validator): parameters of the model, each with the state it may change.
\<close>

record 'b env =
  randRead :: "nat \<Rightarrow> error + byte list"
  json_Unmarshal :: "byte list \<Rightarrow> error + createProducerResp"
  listenToSchemaUpdates :: "string \<Rightarrow> 'b Conn \<Rightarrow> error option \<times> 'b Conn"
  removeSchemaUpdatesListener :: "string \<Rightarrow> 'b Conn \<Rightarrow> error option \<times> 'b Conn"
  create :: "Producer \<Rightarrow> 'b Conn \<Rightarrow> error option \<times> 'b Conn"
  destroy :: "Producer \<Rightarrow> 'b Conn \<Rightarrow> error option \<times> 'b Conn"
  getSchemaDetails :: "string \<Rightarrow> 'b Conn \<Rightarrow> error + schemaDetails"
  validateProtoMsg :: "schemaDetails \<Rightarrow> any \<Rightarrow> error + byte list"
  getInternalName :: "string \<Rightarrow> string"
  brokerPublish :: "natsMsg \<Rightarrow> Duration \<Rightarrow> 'b Conn \<Rightarrow> (error + PubAckFuture) \<times> 'b Conn"

subsection \<open>Producer creation\<close>

definition getDefaultProducerOpts :: ProducerOpts where
  "getDefaultProducerOpts = \<lparr>GenUniqueSuffix = False\<rparr>"

text \<open>
  A \<^verbatim>\<open>ProducerOpt\<close> is a function value, possibly \<^verbatim>\<open>nil\<close>, that updates the options
  through the pointer it gets and returns an error or \<^verbatim>\<open>nil\<close>.
\<close>

type_synonym ProducerOpt = "(ProducerOpts \<Rightarrow> error option \<times> ProducerOpts) option"

definition ProducerGenUniqueSuffix :: ProducerOpt where
  "ProducerGenUniqueSuffix = Some (\<lambda>opts. (None, opts\<lparr>GenUniqueSuffix := True\<rparr>))"

text \<open>
  Modelled from the spec: \<^verbatim>\<open>randomHex\<close> is absent from \<^verbatim>\<open>src/\<close>. The spec has "a
  short random hexadecimal suffix", 8 hexadecimal characters for the call
  \<^verbatim>\<open>randomHex(4)\<close>: the random source fills a buffer of \<open>n\<close> bytes, and the result
  is their lower-case hexadecimal encoding, two characters a byte, the high half first.
  The three definitions before \<open>randomHex\<close> are that encoding.
\<close>

definition hextable :: string where
  "hextable = ''0123456789abcdef''"

definition hexdigit :: "nat \<Rightarrow> char" where
  "hexdigit n = hextable ! (n mod 16)"

definition EncodeToString :: "byte list \<Rightarrow> string" where
  "EncodeToString bs = concat (map (\<lambda>b. [hexdigit (unat b div 16), hexdigit (unat b mod 16)]) bs)"

definition randomHex :: "'b env \<Rightarrow> nat \<Rightarrow> error + string" where
  "randomHex env n =
     (case randRead env n of
        Inl err \<Rightarrow> Inl err
      | Inr bs \<Rightarrow> Inr (EncodeToString (take n (bs @ replicate n 0))))"

definition extendNameWithRandSuffix :: "'b env \<Rightarrow> string \<Rightarrow> error + string" where
  "extendNameWithRandSuffix env name =
     (case randomHex env 4 of
        Inl err \<Rightarrow> Inl err
      | Inr sfx \<Rightarrow> Inr (name @ ''_'' @ sfx))"

text \<open>The loop over the options; \<^verbatim>\<open>CreateProducer\<close> calls each without a nil check.\<close>

fun applyProducerOpts :: "ProducerOpt list \<Rightarrow> ProducerOpts \<Rightarrow> (error + ProducerOpts) outcome" where
  "applyProducerOpts [] defaultOpts = Returns (Inr defaultOpts)"
| "applyProducerOpts (None # rest) defaultOpts = Panics NilFuncCall"
| "applyProducerOpts (Some opt # rest) defaultOpts =
     (case opt defaultOpts of
        (Some err, opts') \<Rightarrow> Returns (Inl err)
      | (None, opts') \<Rightarrow> applyProducerOpts rest opts')"

definition CreateProducer ::
  "'b env \<Rightarrow> string \<Rightarrow> string \<Rightarrow> ProducerOpt list \<Rightarrow> 'b Conn \<Rightarrow> (error + Producer) outcome \<times> 'b Conn" where
  "CreateProducer env station name opts c =
     (case applyProducerOpts opts getDefaultProducerOpts of
        Panics pn \<Rightarrow> (Panics pn, c)
      | Blocks \<Rightarrow> (Blocks, c)
      | Returns (Inl err) \<Rightarrow> (Returns (Inl err), c)
      | Returns (Inr defaultOpts) \<Rightarrow>
          (case (if GenUniqueSuffix defaultOpts then extendNameWithRandSuffix env name else Inr name) of
             Inl err \<Rightarrow> (Returns (Inl err), c)
           | Inr name' \<Rightarrow>
               (let p = \<lparr>Name = name', stationName = station\<rparr> in
                case listenToSchemaUpdates env station c of
                  (Some err, c1) \<Rightarrow> (Returns (Inl err), c1)
                | (None, c1) \<Rightarrow>
                    (case create env p c1 of
                       (Some err, c2) \<Rightarrow>
                         (case removeSchemaUpdatesListener env station c2 of
                            (Some err', c3) \<Rightarrow> (Returns (Inl err'), c3)
                          | (None, c3) \<Rightarrow> (Returns (Inl err), c3))
                     | (None, c2) \<Rightarrow> (Returns (Inr p), c2)))))"

definition getCreationReq :: "Producer \<Rightarrow> 'b Conn \<Rightarrow> createProducerReq" where
  "getCreationReq p c =
     \<lparr>req_Name = Name p, req_StationName = stationName p, req_ConnectionId = ConnId c,
      req_ProducerType = ''application''\<rparr>"

text \<open>
  The send \<^verbatim>\<open>stationUpdatesSubs[stationName].schemaUpdateCh <- ...\<close>: with a relay
  registered for the station the event joins the end of its queue; with none there is no
  channel to send on and the call does not return.
\<close>

definition handleCreationResp ::
  "'b env \<Rightarrow> Producer \<Rightarrow> byte list \<Rightarrow> 'b Conn \<Rightarrow> error option outcome \<times> 'b Conn" where
  "handleCreationResp env p resp c =
     (case json_Unmarshal env resp of
        Inl err \<Rightarrow> (Returns (Some err), c)
      | Inr cr \<Rightarrow>
          if resp_Err cr \<noteq> '''' then (Returns (Some (ErrorsNew (resp_Err cr))), c)
          else
            (case stationUpdatesSubs c (stationName p) of
               None \<Rightarrow> (Panics NoRelayEntry, c)
             | Some sub \<Rightarrow>
                 (Returns None,
                  c\<lparr>stationUpdatesSubs := (stationUpdatesSubs c)(stationName p \<mapsto>
                       sub\<lparr>schemaUpdateCh := schemaUpdateCh sub @
                         [\<lparr>UpdateType = SchemaUpdateTypeInit, Init = resp_SchemaUpdateInit cr\<rparr>]\<rparr>)\<rparr>)))"

subsection \<open>Producer destruction\<close>

definition Destroy :: "'b env \<Rightarrow> Producer \<Rightarrow> 'b Conn \<Rightarrow> error option outcome \<times> 'b Conn" where
  "Destroy env p c =
     (case removeSchemaUpdatesListener env (stationName p) c of
        (Some err, c1) \<Rightarrow> (Panics (PanicError err), c1)
      | (None, c1) \<Rightarrow> (case destroy env p c1 of (r, c2) \<Rightarrow> (Returns r, c2)))"

subsection \<open>Producing a message\<close>

text \<open>
  \<^verbatim>\<open>AckWaitSec\<close> is a Go \<^verbatim>\<open>int\<close>, 64 bits wide on the platforms the client is built for;
  the conversion \<^verbatim>\<open>time.Duration(opts.AckWaitSec)\<close> is then the identity.
\<close>

record ProduceOpts =
  Message :: any
  AckWaitSec :: "64 word"
  OptMsgHeaders :: Headers
  AsyncProduce :: bool

type_synonym ProduceOpt = "(ProduceOpts \<Rightarrow> error option \<times> ProduceOpts) option"

definition time_Second :: Duration where
  "time_Second = 1000000000"

definition getDefaultProduceOpts :: "store \<Rightarrow> ProduceOpts \<times> store" where
  "getDefaultProduceOpts s =
     (case make_map s of
        (msgHeaders, s') \<Rightarrow>
          (\<lparr>Message = NilVal, AckWaitSec = 15, OptMsgHeaders = \<lparr>MsgHeaders = Some msgHeaders\<rparr>,
            AsyncProduce = False\<rparr>, s'))"

definition AckWaitSec_opt :: "64 word \<Rightarrow> ProduceOpt" where
  "AckWaitSec_opt ackWaitSec = Some (\<lambda>opts. (None, opts\<lparr>AckWaitSec := ackWaitSec\<rparr>))"

definition MsgHeaders_opt :: "Headers \<Rightarrow> ProduceOpt" where
  "MsgHeaders_opt hdrs = Some (\<lambda>opts. (None, opts\<lparr>OptMsgHeaders := hdrs\<rparr>))"

definition AsyncProduce_opt :: ProduceOpt where
  "AsyncProduce_opt = Some (\<lambda>opts. (None, opts\<lparr>AsyncProduce := True\<rparr>))"

definition validateMsg :: "'b env \<Rightarrow> Producer \<Rightarrow> any \<Rightarrow> 'b Conn \<Rightarrow> error + byte list" where
  "validateMsg env p msg c =
     (case getSchemaDetails env (stationName p) c of
        Inl err \<Rightarrow> Inl err
      | Inr sd \<Rightarrow>
          if schemaType sd = '''' then
            (case msg of
               ByteSlice bs \<Rightarrow> Inr bs
             | _ \<Rightarrow> Inl (ErrorsNew ''Unsupported message type''))
          else validateProtoMsg env sd msg)"

text \<open>The map a reference stands for, as the transport reads it from the message.\<close>

definition header_of :: "nat option \<Rightarrow> store \<Rightarrow> hmap" where
  "header_of r s = (case r of None \<Rightarrow> Map.empty | Some a \<Rightarrow> maps s a)"

text \<open>The last step of \<^verbatim>\<open>produce\<close>: the \<^verbatim>\<open>select\<close> on the two channels of the future.\<close>

definition await_ack :: "PubAckFuture \<Rightarrow> error option outcome" where
  "await_ack paf = (case paf of AckOk \<Rightarrow> Returns None | AckErr err \<Rightarrow> Returns (Some err) | AckNever \<Rightarrow> Blocks)"

definition produce ::
  "'b env \<Rightarrow> ProduceOpts \<Rightarrow> Producer \<Rightarrow> 'b Conn \<Rightarrow> store \<Rightarrow> error option outcome \<times> 'b Conn \<times> store" where
  "produce env opts p c s =
     (case map_assign (MsgHeaders (OptMsgHeaders opts)) ''$memphis_connectionId'' [ConnId c] s of
        (Panics pn, s1) \<Rightarrow> (Panics pn, c, s1)
      | (Blocks, s1) \<Rightarrow> (Blocks, c, s1)
      | (Returns u1, s1) \<Rightarrow>
          (case map_assign (MsgHeaders (OptMsgHeaders opts)) ''$memphis_producedBy'' [Name p] s1 of
             (Panics pn, s2) \<Rightarrow> (Panics pn, c, s2)
           | (Blocks, s2) \<Rightarrow> (Blocks, c, s2)
           | (Returns u2, s2) \<Rightarrow>
               (case validateMsg env p (Message opts) c of
                  Inl err \<Rightarrow> (Returns (Some err), c, s2)
                | Inr dat \<Rightarrow>
                    (let natsMessage =
                           \<lparr>Header = header_of (MsgHeaders (OptMsgHeaders opts)) s2,
                            Subject = getInternalName env (stationName p) @ ''.final'',
                            Data = dat\<rparr>;
                         stallWaitDuration = time_Second * AckWaitSec opts
                     in case brokerPublish env natsMessage stallWaitDuration c of
                          (Inl err, c') \<Rightarrow> (Returns (Some err), c', s2)
                        | (Inr paf, c') \<Rightarrow>
                            if AsyncProduce opts then (Returns None, c', s2)
                            else (await_ack paf, c', s2)))))"

text \<open>
  The store that lines 256 and 257 leave when the header map is the object \<open>a\<close>: the
  two provenance keys are set in it, and nothing else changes.
\<close>

definition with_provenance :: "nat \<Rightarrow> 'b Conn \<Rightarrow> Producer \<Rightarrow> store \<Rightarrow> store" where
  "with_provenance a c p s =
     s\<lparr>maps := (maps s)(a := (maps s a)(''$memphis_connectionId'' \<mapsto> [ConnId c],
                                         ''$memphis_producedBy'' \<mapsto> [Name p]))\<rparr>"

text \<open>The loop of \<^verbatim>\<open>Produce\<close> over its options; a nil option is skipped.\<close>

fun applyProduceOpts :: "ProduceOpt list \<Rightarrow> ProduceOpts \<Rightarrow> error + ProduceOpts" where
  "applyProduceOpts [] defaultOpts = Inr defaultOpts"
| "applyProduceOpts (None # rest) defaultOpts = applyProduceOpts rest defaultOpts"
| "applyProduceOpts (Some opt # rest) defaultOpts =
     (case opt defaultOpts of
        (Some err, opts') \<Rightarrow> Inl err
      | (None, opts') \<Rightarrow> applyProduceOpts rest opts')"

definition Produce ::
  "'b env \<Rightarrow> Producer \<Rightarrow> any \<Rightarrow> ProduceOpt list \<Rightarrow> 'b Conn \<Rightarrow> store \<Rightarrow> error option outcome \<times> 'b Conn \<times> store" where
  "Produce env p message opts c s =
     (case getDefaultProduceOpts s of
        (defaultOpts, s') \<Rightarrow>
          (case applyProduceOpts opts (defaultOpts\<lparr>Message := message\<rparr>) of
             Inl err \<Rightarrow> (Returns (Some err), c, s')
           | Inr opts' \<Rightarrow> produce env opts' p c s'))"

subsection \<open>A scripted transport\<close>

text \<open>
  One instance of the collaborators, for running the functions above on concrete
  inputs: every call of the connection is written to a log kept in \<open>brokerConn\<close>, in the
  order the calls are made, and answers what the script says. Registering a relay adds
  the station's entry with an empty channel, removing it deletes the entry.
\<close>

datatype call =
    Listen string
  | Unlisten string
  | CreateReq string createProducerReq
  | DestroyReq string removeProducerReq
  | Published string "byte list" Duration

record answers =
  ans_rand :: "error + byte list"
  ans_json :: "error + createProducerResp"
  ans_listen :: "error option"
  ans_remove :: "error option"
  ans_create :: "error option"
  ans_destroy :: "error option"
  ans_schema :: "error + schemaDetails"
  ans_publish :: "error + PubAckFuture"

definition log_call :: "call \<Rightarrow> call list Conn \<Rightarrow> call list Conn" where
  "log_call x c = c\<lparr>brokerConn := brokerConn c @ [x]\<rparr>"

definition scripted :: "answers \<Rightarrow> call list env" where
  "scripted a =
     \<lparr>randRead = (\<lambda>n. ans_rand a),
      json_Unmarshal = (\<lambda>resp. ans_json a),
      listenToSchemaUpdates = (\<lambda>st c.
        (ans_listen a,
         log_call (Listen st)
           (if ans_listen a = None \<and> stationUpdatesSubs c st = None
            then c\<lparr>stationUpdatesSubs := (stationUpdatesSubs c)(st \<mapsto> \<lparr>schemaUpdateCh = []\<rparr>)\<rparr>
            else c))),
      removeSchemaUpdatesListener = (\<lambda>st c.
        (ans_remove a,
         log_call (Unlisten st)
           (if ans_remove a = None
            then c\<lparr>stationUpdatesSubs := (stationUpdatesSubs c)(st := None)\<rparr>
            else c))),
      create = (\<lambda>p c. (ans_create a, log_call (CreateReq (getCreationSubject p) (getCreationReq p c)) c)),
      destroy = (\<lambda>p c. (ans_destroy a, log_call (DestroyReq (getDestructionSubject p) (getDestructionReq p)) c)),
      getSchemaDetails = (\<lambda>st c. ans_schema a),
      validateProtoMsg = (\<lambda>sd msg. Inl (Foreign ''schema validation failed'')),
      getInternalName = (\<lambda>st. st),
      brokerPublish = (\<lambda>m d c. (ans_publish a, log_call (Published (Subject m) (Data m) d) c))\<rparr>"

definition all_fine :: answers where
  "all_fine =
     \<lparr>ans_rand = Inr [0xDE, 0xAD, 0xBE, 0xEF],
      ans_json = Inr \<lparr>resp_SchemaUpdateInit =
                        \<lparr>SchemaName = ''orders_v'', Versions = [], ActiveVersionIdx = 0, SchemaType = ''protobuf''\<rparr>,
                      resp_Err = ''''\<rparr>,
      ans_listen = None,
      ans_remove = None,
      ans_create = None,
      ans_destroy = None,
      ans_schema = Inr \<lparr>schemaType = ''''\<rparr>,
      ans_publish = Inr AckOk\<rparr>"

definition conn0 :: "call list Conn" where
  "conn0 = \<lparr>ConnId = ''conn-1'', stationUpdatesSubs = Map.empty, brokerConn = []\<rparr>"

definition store0 :: store where
  "store0 = \<lparr>maps = (\<lambda>a. Map.empty), nextRef = 0\<rparr>"

section \<open>Properties\<close>

subsection \<open>Header keys\<close>

text \<open>
  Claim C6, as the code has it. On a \<^verbatim>\<open>Headers\<close> whose map has been made (by
  \<^verbatim>\<open>New\<close>, or by the default options), \<^verbatim>\<open>Add(key, value)\<close> returns the
  reserved-key error exactly when the key starts with \<^verbatim>\<open>$memphis\<close>, and then leaves
  the map as it was; for every other key it returns \<^verbatim>\<open>nil\<close>, the map holds the
  one-element list \<open>[value]\<close> under the key, whatever it held there before, every other
  key of the map keeps its value, and no other map is touched.
\<close>

theorem Add_initialised:
  "MsgHeaders hdr = Some a \<Longrightarrow>
   (fst (Add hdr key v s) = Returns (Some (ErrorsNew ''Keys in headers should not start with $memphis''))
      \<longleftrightarrow> prefix ''$memphis'' key) \<and>
   (prefix ''$memphis'' key \<longrightarrow> snd (Add hdr key v s) = s) \<and>
   (\<not> prefix ''$memphis'' key \<longrightarrow>
      fst (Add hdr key v s) = Returns None \<and>
      maps (snd (Add hdr key v s)) a key = Some [v] \<and>
      (\<forall>k. k \<noteq> key \<longrightarrow> maps (snd (Add hdr key v s)) a k = maps s a k) \<and>
      (\<forall>b. b \<noteq> a \<longrightarrow> maps (snd (Add hdr key v s)) b = maps s b) \<and>
      nextRef (snd (Add hdr key v s)) = nextRef s)"
  by (simp add: Add_def validateHeaderKey_def map_assign_def)

text \<open>
  After \<^verbatim>\<open>New\<close> on the first map of an empty store, \<^verbatim>\<open>Add("trace-id", "42")\<close>
  succeeds and stores the value.
\<close>

theorem Add_initialised_witness:
  "MsgHeaders (fst (New \<lparr>MsgHeaders = None\<rparr> store0)) = Some 0 \<and>
   \<not> prefix ''$memphis'' ''trace-id'' \<and>
   fst (Add (fst (New \<lparr>MsgHeaders = None\<rparr> store0)) ''trace-id'' ''42''
          (snd (New \<lparr>MsgHeaders = None\<rparr> store0))) = Returns None \<and>
   maps (snd (Add (fst (New \<lparr>MsgHeaders = None\<rparr> store0)) ''trace-id'' ''42''
          (snd (New \<lparr>MsgHeaders = None\<rparr> store0)))) 0 ''trace-id'' = Some [''42'']"
proof -
  have h: "MsgHeaders (fst (New \<lparr>MsgHeaders = None\<rparr> store0)) = Some 0"
    by (simp add: New_def make_map_def store0_def)
  have k: "\<not> prefix ''$memphis'' ''trace-id''" by simp
  from Add_initialised [OF h, of "''trace-id''" "''42''" "snd (New \<lparr>MsgHeaders = None\<rparr> store0)"] h k
  show ?thesis by blast
qed

text \<open>
  The claim as written, with no condition on the \<^verbatim>\<open>Headers\<close>, fails on the zero value
  \<^verbatim>\<open>Headers{}\<close>, whose map is nil: the key \<^verbatim>\<open>trace-id\<close> is not reserved, and the
  assignment of line 250 panics instead of succeeding; nothing is stored.
\<close>

theorem Add_counterexample:
  "\<not> prefix ''$memphis'' ''trace-id'' \<and>
   fst (Add \<lparr>MsgHeaders = None\<rparr> ''trace-id'' ''42'' store0) = Panics NilMapAssignment \<and>
   fst (Add \<lparr>MsgHeaders = None\<rparr> ''trace-id'' ''42'' store0) \<noteq> Returns None \<and>
   maps (snd (Add \<lparr>MsgHeaders = None\<rparr> ''trace-id'' ''42'' store0)) = maps store0"
  by (simp add: Add_def validateHeaderKey_def map_assign_def)

subsection \<open>Control subjects\<close>

text \<open>
  Claim C7, as the code has it. The subject of producer creation requests is
  \<^verbatim>\<open>$memphis_producer_creations\<close>, that of producer destruction requests is
  \<^verbatim>\<open>$memphis_producer_destructions\<close>, and the template of the schema-update subjects,
  filled in with a station name \<open>S\<close>, gives \<^verbatim>\<open>$memphis_schema_updates_\<close> followed by
  \<open>S\<close>.
\<close>

theorem control_subjects:
  "getCreationSubject p = ''$memphis_producer_creations'' \<and>
   getDestructionSubject p = ''$memphis_producer_destructions'' \<and>
   Sprintf_s schemaUpdatesSubjectTemplate S = ''$memphis_schema_updates_'' @ S"
  by (simp add: getCreationSubject_def getDestructionSubject_def schemaUpdatesSubjectTemplate_def)

text \<open>
  None of the three is the name the claim gives: for the producer \<^verbatim>\<open>p1\<close> of the
  station \<^verbatim>\<open>orders\<close> the subjects are not \<^verbatim>\<open>producer-creations\<close>,
  \<^verbatim>\<open>producer-destructions\<close> and \<^verbatim>\<open>schema-updates.orders\<close>.
\<close>

theorem control_subjects_counterexample:
  "getCreationSubject \<lparr>Name = ''p1'', stationName = ''orders''\<rparr> \<noteq> ''producer-creations'' \<and>
   getDestructionSubject \<lparr>Name = ''p1'', stationName = ''orders''\<rparr> \<noteq> ''producer-destructions'' \<and>
   Sprintf_s schemaUpdatesSubjectTemplate ''orders'' \<noteq> ''schema-updates.orders''"
  by (simp add: getCreationSubject_def getDestructionSubject_def schemaUpdatesSubjectTemplate_def)

subsection \<open>The random suffix\<close>

lemma hexdigit_hex: "hexdigit n \<in> set hextable"
proof -
  have "n mod 16 < length hextable" by (simp add: hextable_def)
  then show ?thesis unfolding hexdigit_def by (rule nth_mem)
qed

lemma length_EncodeToString: "length (EncodeToString bs) = 2 * length bs"
  by (induction bs) (simp_all add: EncodeToString_def)

lemma set_EncodeToString: "set (EncodeToString bs) \<subseteq> set hextable"
proof (induction bs)
  case Nil
  show ?case by (simp add: EncodeToString_def)
next
  case (Cons b bs)
  have "set (EncodeToString (b # bs)) =
        {hexdigit (unat b div 16), hexdigit (unat b mod 16)} \<union> set (EncodeToString bs)"
    by (simp add: EncodeToString_def)
  with Cons hexdigit_hex [of "unat b div 16"] hexdigit_hex [of "unat b mod 16"]
  show ?case by simp
qed

text \<open>
  Claim C8. Let the options passed to \<^verbatim>\<open>CreateProducer\<close> apply without error and let
  the relay be registered. With \<^verbatim>\<open>GenUniqueSuffix\<close> set and the random source
  succeeding, a creation that the broker accepts returns the producer whose name is the
  requested name, an underscore and 8 characters, each a hexadecimal digit; with the
  option not set, the returned producer has the requested name itself. The default
  options have it not set, and \<^verbatim>\<open>ProducerGenUniqueSuffix()\<close> sets it.
\<close>

theorem CreateProducer_name:
  assumes "applyProducerOpts opts getDefaultProducerOpts = Returns (Inr dflt)"
    and "listenToSchemaUpdates env station c = (None, c1)"
  shows "(GenUniqueSuffix dflt \<and> randRead env 4 = Inr bs \<and>
          create env \<lparr>Name = name @ ''_'' @ EncodeToString (take 4 (bs @ replicate 4 0)),
                      stationName = station\<rparr> c1 = (None, c2) \<longrightarrow>
            (\<exists>sfx. length sfx = 8 \<and> set sfx \<subseteq> set hextable \<and>
               CreateProducer env station name opts c =
                 (Returns (Inr \<lparr>Name = name @ ''_'' @ sfx, stationName = station\<rparr>), c2))) \<and>
         (\<not> GenUniqueSuffix dflt \<and>
          create env \<lparr>Name = name, stationName = station\<rparr> c1 = (None, c2) \<longrightarrow>
            CreateProducer env station name opts c =
              (Returns (Inr \<lparr>Name = name, stationName = station\<rparr>), c2)) \<and>
         \<not> GenUniqueSuffix getDefaultProducerOpts \<and>
         applyProducerOpts [] getDefaultProducerOpts = Returns (Inr getDefaultProducerOpts) \<and>
         (\<exists>d. applyProducerOpts [ProducerGenUniqueSuffix] getDefaultProducerOpts = Returns (Inr d) \<and>
              GenUniqueSuffix d)"
proof -
  have a: "GenUniqueSuffix dflt \<and> randRead env 4 = Inr bs \<and>
          create env \<lparr>Name = name @ ''_'' @ EncodeToString (take 4 (bs @ replicate 4 0)),
                      stationName = station\<rparr> c1 = (None, c2) \<longrightarrow>
            (\<exists>sfx. length sfx = 8 \<and> set sfx \<subseteq> set hextable \<and>
               CreateProducer env station name opts c =
                 (Returns (Inr \<lparr>Name = name @ ''_'' @ sfx, stationName = station\<rparr>), c2))"
  proof
    assume h: "GenUniqueSuffix dflt \<and> randRead env 4 = Inr bs \<and>
          create env \<lparr>Name = name @ ''_'' @ EncodeToString (take 4 (bs @ replicate 4 0)),
                      stationName = station\<rparr> c1 = (None, c2)"
    let ?sfx = "EncodeToString (take 4 (bs @ replicate 4 0))"
    have l: "length ?sfx = 8" by (simp add: length_EncodeToString)
    have s: "set ?sfx \<subseteq> set hextable" by (rule set_EncodeToString)
    have e: "CreateProducer env station name opts c =
                 (Returns (Inr \<lparr>Name = name @ ''_'' @ ?sfx, stationName = station\<rparr>), c2)"
      using assms h
      by (simp add: CreateProducer_def extendNameWithRandSuffix_def randomHex_def)
    from l s e show "\<exists>sfx. length sfx = 8 \<and> set sfx \<subseteq> set hextable \<and>
               CreateProducer env station name opts c =
                 (Returns (Inr \<lparr>Name = name @ ''_'' @ sfx, stationName = station\<rparr>), c2)"
      by blast
  qed
  have b: "\<not> GenUniqueSuffix dflt \<and>
          create env \<lparr>Name = name, stationName = station\<rparr> c1 = (None, c2) \<longrightarrow>
            CreateProducer env station name opts c =
              (Returns (Inr \<lparr>Name = name, stationName = station\<rparr>), c2)"
    using assms by (simp add: CreateProducer_def)
  have d: "\<not> GenUniqueSuffix getDefaultProducerOpts"
    by (simp add: getDefaultProducerOpts_def)
  have e: "applyProducerOpts [] getDefaultProducerOpts = Returns (Inr getDefaultProducerOpts)"
    by simp
  have f: "\<exists>d. applyProducerOpts [ProducerGenUniqueSuffix] getDefaultProducerOpts = Returns (Inr d) \<and>
              GenUniqueSuffix d"
    by (simp add: ProducerGenUniqueSuffix_def)
  from a b d e f show ?thesis by blast
qed

text \<open>
  The scenario of the spec: \<^verbatim>\<open>p2\<close> on the station \<^verbatim>\<open>orders\<close>, the random source
  giving the bytes \<^verbatim>\<open>de ad be ef\<close>, is created as \<^verbatim>\<open>p2_deadbeef\<close>; without the
  option, as \<^verbatim>\<open>p2\<close>.
\<close>

theorem CreateProducer_name_witness:
  "applyProducerOpts [ProducerGenUniqueSuffix] getDefaultProducerOpts = Returns (Inr \<lparr>GenUniqueSuffix = True\<rparr>) \<and>
   fst (listenToSchemaUpdates (scripted all_fine) ''orders'' conn0) = None \<and>
   randRead (scripted all_fine) 4 = Inr [0xDE, 0xAD, 0xBE, 0xEF] \<and>
   (\<exists>sfx c2. length sfx = 8 \<and> set sfx \<subseteq> set hextable \<and>
      CreateProducer (scripted all_fine) ''orders'' ''p2'' [ProducerGenUniqueSuffix] conn0 =
        (Returns (Inr \<lparr>Name = ''p2_'' @ sfx, stationName = ''orders''\<rparr>), c2)) \<and>
   fst (CreateProducer (scripted all_fine) ''orders'' ''p2'' [ProducerGenUniqueSuffix] conn0) =
     Returns (Inr \<lparr>Name = ''p2_deadbeef'', stationName = ''orders''\<rparr>) \<and>
   fst (CreateProducer (scripted all_fine) ''orders'' ''p2'' [] conn0) =
     Returns (Inr \<lparr>Name = ''p2'', stationName = ''orders''\<rparr>)"
proof -
  let ?env = "scripted all_fine"
  let ?c1 = "snd (listenToSchemaUpdates ?env ''orders'' conn0)"
  let ?p = "\<lparr>Name = ''p2'' @ ''_'' @ EncodeToString (take 4 ([0xDE, 0xAD, 0xBE, 0xEF] @ replicate 4 0)),
            stationName = ''orders''\<rparr>"
  let ?c2 = "snd (create ?env ?p ?c1)"
  have o: "applyProducerOpts [ProducerGenUniqueSuffix] getDefaultProducerOpts = Returns (Inr \<lparr>GenUniqueSuffix = True\<rparr>)"
    by (simp add: ProducerGenUniqueSuffix_def getDefaultProducerOpts_def)
  have l: "listenToSchemaUpdates ?env ''orders'' conn0 = (None, ?c1)"
    by (simp add: scripted_def all_fine_def)
  have r: "randRead ?env 4 = Inr [0xDE, 0xAD, 0xBE, 0xEF]"
    by (simp add: scripted_def all_fine_def)
  have k: "create ?env ?p ?c1 = (None, ?c2)"
    by (simp add: scripted_def all_fine_def)
  have g: "GenUniqueSuffix \<lparr>GenUniqueSuffix = True\<rparr>" by simp
  from CreateProducer_name [OF o l, of "[0xDE, 0xAD, 0xBE, 0xEF]" "''p2''" ?c2] g r k
  have x: "\<exists>sfx. length sfx = 8 \<and> set sfx \<subseteq> set hextable \<and>
      CreateProducer ?env ''orders'' ''p2'' [ProducerGenUniqueSuffix] conn0 =
        (Returns (Inr \<lparr>Name = ''p2'' @ ''_'' @ sfx, stationName = ''orders''\<rparr>), ?c2)"
    by blast
  have y: "fst (CreateProducer ?env ''orders'' ''p2'' [ProducerGenUniqueSuffix] conn0) =
     Returns (Inr \<lparr>Name = ''p2_deadbeef'', stationName = ''orders''\<rparr>)"
    by (simp add: CreateProducer_def o extendNameWithRandSuffix_def randomHex_def
          EncodeToString_def hexdigit_def hextable_def scripted_def all_fine_def Let_def conn0_def)
  have z: "fst (CreateProducer ?env ''orders'' ''p2'' [] conn0) =
     Returns (Inr \<lparr>Name = ''p2'', stationName = ''orders''\<rparr>)"
    by (simp add: CreateProducer_def getDefaultProducerOpts_def scripted_def all_fine_def Let_def conn0_def)
  from x have x': "\<exists>sfx c2. length sfx = 8 \<and> set sfx \<subseteq> set hextable \<and>
      CreateProducer ?env ''orders'' ''p2'' [ProducerGenUniqueSuffix] conn0 =
        (Returns (Inr \<lparr>Name = ''p2_'' @ sfx, stationName = ''orders''\<rparr>), c2)"
    by auto
  have l': "fst (listenToSchemaUpdates ?env ''orders'' conn0) = None"
    by (simp add: scripted_def all_fine_def)
  show ?thesis using o l' r x' y z by (intro conjI) assumption+
qed

subsection \<open>Creation and its rollback\<close>

text \<open>
  Claim C2. When \<^verbatim>\<open>CreateProducer\<close> has registered the relay of the station and the
  creation request then fails with \<open>err\<close> (whatever made it fail, a rejection by the
  broker included), the relay's removal is called on the state the request left, and
  the call returns in the state the removal leaves, with no producer and an error: the
  removal's own error if it has one, in place of \<open>err\<close>, and \<open>err\<close> otherwise.
\<close>

theorem CreateProducer_rollback:
  assumes "applyProducerOpts opts getDefaultProducerOpts = Returns (Inr dflt)"
    and "(if GenUniqueSuffix dflt then extendNameWithRandSuffix env name else Inr name) = Inr name'"
    and "listenToSchemaUpdates env station c = (None, c1)"
    and "create env \<lparr>Name = name', stationName = station\<rparr> c1 = (Some err, c2)"
  shows "CreateProducer env station name opts c =
           (Returns (Inl (case fst (removeSchemaUpdatesListener env station c2) of
                            None \<Rightarrow> err | Some err' \<Rightarrow> err')),
            snd (removeSchemaUpdatesListener env station c2)) \<and>
         (\<forall>p. fst (CreateProducer env station name opts c) \<noteq> Returns (Inr p))"
  using assms
  by (cases "removeSchemaUpdatesListener env station c2")
     (simp add: CreateProducer_def split: option.split)

text \<open>
  On the scripted transport: the broker rejects \<^verbatim>\<open>p1\<close>; the log shows the
  registration, the request and the removal in this order, the station has no relay
  afterwards, and the caller gets the broker's error. When the removal fails too, the
  caller gets the removal's error.
\<close>

theorem CreateProducer_rollback_witness:
  "fst (CreateProducer (scripted (all_fine\<lparr>ans_create := Some (ErrorsNew ''station does not exist'')\<rparr>))
          ''orders'' ''p1'' [] conn0) = Returns (Inl (ErrorsNew ''station does not exist'')) \<and>
   brokerConn (snd (CreateProducer (scripted (all_fine\<lparr>ans_create := Some (ErrorsNew ''station does not exist'')\<rparr>))
          ''orders'' ''p1'' [] conn0)) =
     [Listen ''orders'',
      CreateReq ''$memphis_producer_creations''
        \<lparr>req_Name = ''p1'', req_StationName = ''orders'', req_ConnectionId = ''conn-1'',
         req_ProducerType = ''application''\<rparr>,
      Unlisten ''orders''] \<and>
   stationUpdatesSubs (snd (CreateProducer (scripted (all_fine\<lparr>ans_create := Some (ErrorsNew ''station does not exist'')\<rparr>))
          ''orders'' ''p1'' [] conn0)) ''orders'' = None \<and>
   fst (CreateProducer (scripted (all_fine\<lparr>ans_create := Some (ErrorsNew ''station does not exist''),
                                            ans_remove := Some (Foreign ''unsubscribe failed'')\<rparr>))
          ''orders'' ''p1'' [] conn0) = Returns (Inl (Foreign ''unsubscribe failed''))"
proof -
  let ?e1 = "scripted (all_fine\<lparr>ans_create := Some (ErrorsNew ''station does not exist'')\<rparr>)"
  let ?e2 = "scripted (all_fine\<lparr>ans_create := Some (ErrorsNew ''station does not exist''),
                                ans_remove := Some (Foreign ''unsubscribe failed'')\<rparr>)"
  let ?p = "\<lparr>Name = ''p1'', stationName = ''orders''\<rparr>"
  have o: "applyProducerOpts [] getDefaultProducerOpts = Returns (Inr getDefaultProducerOpts)"
    by simp
  have n: "(if GenUniqueSuffix getDefaultProducerOpts then extendNameWithRandSuffix env ''p1'' else Inr ''p1'') = Inr ''p1''"
    for env :: "call list env"
    by (simp add: getDefaultProducerOpts_def)
  have l1: "listenToSchemaUpdates ?e1 ''orders'' conn0 = (None, snd (listenToSchemaUpdates ?e1 ''orders'' conn0))"
    by (simp add: scripted_def all_fine_def)
  have l2: "listenToSchemaUpdates ?e2 ''orders'' conn0 = (None, snd (listenToSchemaUpdates ?e2 ''orders'' conn0))"
    by (simp add: scripted_def all_fine_def)
  have k1: "create ?e1 ?p (snd (listenToSchemaUpdates ?e1 ''orders'' conn0)) =
              (Some (ErrorsNew ''station does not exist''),
               snd (create ?e1 ?p (snd (listenToSchemaUpdates ?e1 ''orders'' conn0))))"
    by (simp add: scripted_def all_fine_def)
  have k2: "create ?e2 ?p (snd (listenToSchemaUpdates ?e2 ''orders'' conn0)) =
              (Some (ErrorsNew ''station does not exist''),
               snd (create ?e2 ?p (snd (listenToSchemaUpdates ?e2 ''orders'' conn0))))"
    by (simp add: scripted_def all_fine_def)
  note r1 = CreateProducer_rollback [OF o n l1 k1, THEN conjunct1]
  note r2 = CreateProducer_rollback [OF o n l2 k2, THEN conjunct1]
  have a: "fst (CreateProducer ?e1 ''orders'' ''p1'' [] conn0) = Returns (Inl (ErrorsNew ''station does not exist''))"
    unfolding r1 by (simp add: scripted_def all_fine_def)
  have b: "brokerConn (snd (CreateProducer ?e1 ''orders'' ''p1'' [] conn0)) =
     [Listen ''orders'',
      CreateReq ''$memphis_producer_creations''
        \<lparr>req_Name = ''p1'', req_StationName = ''orders'', req_ConnectionId = ''conn-1'',
         req_ProducerType = ''application''\<rparr>,
      Unlisten ''orders'']"
    unfolding r1
    by (simp add: scripted_def all_fine_def log_call_def conn0_def getCreationSubject_def getCreationReq_def)
  have c: "stationUpdatesSubs (snd (CreateProducer ?e1 ''orders'' ''p1'' [] conn0)) ''orders'' = None"
    unfolding r1
    by (simp add: scripted_def all_fine_def log_call_def conn0_def)
  have d: "fst (CreateProducer ?e2 ''orders'' ''p1'' [] conn0) = Returns (Inl (Foreign ''unsubscribe failed''))"
    unfolding r2 by (simp add: scripted_def all_fine_def)
  show ?thesis using a b c d by (intro conjI) assumption+
qed

subsection \<open>Destruction\<close>

text \<open>
  Claim C3. \<^verbatim>\<open>Destroy\<close> first removes the relay of the producer's station. If that
  succeeds, the destruction request is made in the state the removal left, and its
  result is what \<^verbatim>\<open>Destroy\<close> returns. If it fails with \<open>err\<close>, \<^verbatim>\<open>Destroy\<close> does
  not return: it panics with \<open>err\<close> in the state the removal left, and this whatever
  the destruction request would do, since it is never made.
\<close>

theorem Destroy_order:
  "(removeSchemaUpdatesListener env (stationName p) c = (None, c1) \<longrightarrow>
      Destroy env p c = (Returns (fst (destroy env p c1)), snd (destroy env p c1))) \<and>
   (removeSchemaUpdatesListener env (stationName p) c = (Some err, c1) \<longrightarrow>
      Destroy env p c = (Panics (PanicError err), c1) \<and>
      (\<forall>d. Destroy (env\<lparr>destroy := d\<rparr>) p c = (Panics (PanicError err), c1)))"
  by (simp add: Destroy_def split: prod.split)

text \<open>
  On the scripted transport: the log of a successful \<^verbatim>\<open>Destroy\<close> has the removal
  and then the request; the log of one whose removal fails has the removal only, and
  the outcome is the panic.
\<close>

theorem Destroy_order_witness:
  "Destroy (scripted all_fine) \<lparr>Name = ''p1'', stationName = ''orders''\<rparr> conn0 =
     (Returns None,
      conn0\<lparr>brokerConn :=
        [Unlisten ''orders'',
         DestroyReq ''$memphis_producer_destructions'' \<lparr>rm_Name = ''p1'', rm_StationName = ''orders''\<rparr>]\<rparr>) \<and>
   Destroy (scripted (all_fine\<lparr>ans_remove := Some (Foreign ''no active listener'')\<rparr>))
       \<lparr>Name = ''p1'', stationName = ''orders''\<rparr> conn0 =
     (Panics (PanicError (Foreign ''no active listener'')), conn0\<lparr>brokerConn := [Unlisten ''orders'']\<rparr>)"
proof -
  let ?e1 = "scripted all_fine"
  let ?e2 = "scripted (all_fine\<lparr>ans_remove := Some (Foreign ''no active listener'')\<rparr>)"
  let ?p = "\<lparr>Name = ''p1'', stationName = ''orders''\<rparr>"
  have h1: "removeSchemaUpdatesListener ?e1 (stationName ?p) conn0 =
              (None, conn0\<lparr>brokerConn := [Unlisten ''orders'']\<rparr>)"
    by (simp add: scripted_def all_fine_def log_call_def conn0_def)
  have h2: "removeSchemaUpdatesListener ?e2 (stationName ?p) conn0 =
              (Some (Foreign ''no active listener''), conn0\<lparr>brokerConn := [Unlisten ''orders'']\<rparr>)"
    by (simp add: scripted_def all_fine_def log_call_def conn0_def)
  from Destroy_order [of ?e1 ?p conn0 "conn0\<lparr>brokerConn := [Unlisten ''orders'']\<rparr>"] h1
  have a: "Destroy ?e1 ?p conn0 =
             (Returns (fst (destroy ?e1 ?p (conn0\<lparr>brokerConn := [Unlisten ''orders'']\<rparr>))),
              snd (destroy ?e1 ?p (conn0\<lparr>brokerConn := [Unlisten ''orders'']\<rparr>)))"
    by blast
  from Destroy_order [of ?e2 ?p conn0 "conn0\<lparr>brokerConn := [Unlisten ''orders'']\<rparr>" "Foreign ''no active listener''"] h2
  have b: "Destroy ?e2 ?p conn0 =
     (Panics (PanicError (Foreign ''no active listener'')), conn0\<lparr>brokerConn := [Unlisten ''orders'']\<rparr>)"
    by blast
  have a': "Destroy ?e1 ?p conn0 =
     (Returns None,
      conn0\<lparr>brokerConn :=
        [Unlisten ''orders'',
         DestroyReq ''$memphis_producer_destructions'' \<lparr>rm_Name = ''p1'', rm_StationName = ''orders''\<rparr>]\<rparr>)"
    unfolding a
    by (simp add: scripted_def all_fine_def log_call_def conn0_def getDestructionSubject_def getDestructionReq_def)
  show ?thesis using a' b by (intro conjI) assumption+
qed

subsection \<open>The creation response\<close>

text \<open>
  Claim C4. Let the response decode to \<open>cr\<close>. If its error string is empty and the
  station has a relay, \<^verbatim>\<open>handleCreationResp\<close> returns \<^verbatim>\<open>nil\<close> and the station's
  channel is the one before with exactly one more event at its end: the update of type
  \<^verbatim>\<open>Init\<close> carrying the schema snapshot of the response; the other stations and the
  rest of the connection are as before. If the error string is not empty, it returns
  the error made from that string and the connection is unchanged: nothing is put on
  any channel.
\<close>

theorem handleCreationResp_init:
  assumes "json_Unmarshal env resp = Inr cr"
  shows "(resp_Err cr = '''' \<and> stationUpdatesSubs c (stationName p) = Some sub \<longrightarrow>
            fst (handleCreationResp env p resp c) = Returns None \<and>
            stationUpdatesSubs (snd (handleCreationResp env p resp c)) (stationName p) =
              Some (sub\<lparr>schemaUpdateCh := schemaUpdateCh sub @
                     [\<lparr>UpdateType = SchemaUpdateTypeInit, Init = resp_SchemaUpdateInit cr\<rparr>]\<rparr>) \<and>
            (\<forall>st. st \<noteq> stationName p \<longrightarrow>
               stationUpdatesSubs (snd (handleCreationResp env p resp c)) st = stationUpdatesSubs c st) \<and>
            ConnId (snd (handleCreationResp env p resp c)) = ConnId c \<and>
            brokerConn (snd (handleCreationResp env p resp c)) = brokerConn c) \<and>
         (resp_Err cr \<noteq> '''' \<longrightarrow>
            handleCreationResp env p resp c = (Returns (Some (ErrorsNew (resp_Err cr))), c))"
  using assms by (simp add: handleCreationResp_def)

text \<open>
  On the scripted transport, after the relay of \<^verbatim>\<open>orders\<close> is registered: an
  accepting response puts the one \<^verbatim>\<open>Init\<close> event on the empty channel; a response
  with the error \<^verbatim>\<open>producer name already exists\<close> returns that error and leaves the
  connection as it was.
\<close>

theorem handleCreationResp_init_witness:
  "json_Unmarshal (scripted all_fine) [] =
     Inr \<lparr>resp_SchemaUpdateInit =
            \<lparr>SchemaName = ''orders_v'', Versions = [], ActiveVersionIdx = 0, SchemaType = ''protobuf''\<rparr>,
          resp_Err = ''''\<rparr> \<and>
   stationUpdatesSubs (snd (listenToSchemaUpdates (scripted all_fine) ''orders'' conn0)) ''orders'' =
     Some \<lparr>schemaUpdateCh = []\<rparr> \<and>
   fst (handleCreationResp (scripted all_fine) \<lparr>Name = ''p1'', stationName = ''orders''\<rparr> []
          (snd (listenToSchemaUpdates (scripted all_fine) ''orders'' conn0))) = Returns None \<and>
   stationUpdatesSubs
     (snd (handleCreationResp (scripted all_fine) \<lparr>Name = ''p1'', stationName = ''orders''\<rparr> []
            (snd (listenToSchemaUpdates (scripted all_fine) ''orders'' conn0)))) ''orders'' =
     Some \<lparr>schemaUpdateCh =
            [\<lparr>UpdateType = SchemaUpdateTypeInit,
              Init = \<lparr>SchemaName = ''orders_v'', Versions = [], ActiveVersionIdx = 0,
                      SchemaType = ''protobuf''\<rparr>\<rparr>]\<rparr> \<and>
   handleCreationResp
     (scripted (all_fine\<lparr>ans_json := Inr \<lparr>resp_SchemaUpdateInit =
            \<lparr>SchemaName = [], Versions = [], ActiveVersionIdx = 0, SchemaType = []\<rparr>,
          resp_Err = ''producer name already exists''\<rparr>\<rparr>))
     \<lparr>Name = ''p1'', stationName = ''orders''\<rparr> [] conn0 =
     (Returns (Some (ErrorsNew ''producer name already exists'')), conn0)"
proof -
  let ?e1 = "scripted all_fine"
  let ?cr1 = "\<lparr>resp_SchemaUpdateInit =
            \<lparr>SchemaName = ''orders_v'', Versions = [], ActiveVersionIdx = 0, SchemaType = ''protobuf''\<rparr>,
          resp_Err = ''''\<rparr>"
  let ?cr2 = "\<lparr>resp_SchemaUpdateInit =
            \<lparr>SchemaName = [], Versions = [], ActiveVersionIdx = 0, SchemaType = []\<rparr>,
          resp_Err = ''producer name already exists''\<rparr>"
  let ?e2 = "scripted (all_fine\<lparr>ans_json := Inr ?cr2\<rparr>)"
  let ?p = "\<lparr>Name = ''p1'', stationName = ''orders''\<rparr>"
  let ?c1 = "snd (listenToSchemaUpdates ?e1 ''orders'' conn0)"
  have j1: "json_Unmarshal ?e1 [] = Inr ?cr1" by (simp add: scripted_def all_fine_def)
  have j2: "json_Unmarshal ?e2 [] = Inr ?cr2" by (simp add: scripted_def all_fine_def)
  have s1: "stationUpdatesSubs ?c1 ''orders'' = Some \<lparr>schemaUpdateCh = []\<rparr>"
    by (simp add: scripted_def all_fine_def log_call_def conn0_def)
  have s1': "stationUpdatesSubs ?c1 (stationName ?p) = Some \<lparr>schemaUpdateCh = []\<rparr>"
    using s1 by simp
  have e1: "resp_Err ?cr1 = ''''" by simp
  have e2: "resp_Err ?cr2 \<noteq> ''''" by simp
  from handleCreationResp_init [OF j1, of ?c1 ?p "\<lparr>schemaUpdateCh = []\<rparr>"] e1 s1'
  have a: "fst (handleCreationResp ?e1 ?p [] ?c1) = Returns None"
   and b: "stationUpdatesSubs (snd (handleCreationResp ?e1 ?p [] ?c1)) (stationName ?p) =
            Some (\<lparr>schemaUpdateCh = []\<rparr>\<lparr>schemaUpdateCh := schemaUpdateCh \<lparr>schemaUpdateCh = []\<rparr> @
                     [\<lparr>UpdateType = SchemaUpdateTypeInit, Init = resp_SchemaUpdateInit ?cr1\<rparr>]\<rparr>)"
    by blast+
  from handleCreationResp_init [OF j2, of conn0 ?p] e2
  have c: "handleCreationResp ?e2 ?p [] conn0 = (Returns (Some (ErrorsNew (resp_Err ?cr2))), conn0)"
    by blast
  have b': "stationUpdatesSubs (snd (handleCreationResp ?e1 ?p [] ?c1)) ''orders'' =
     Some \<lparr>schemaUpdateCh =
            [\<lparr>UpdateType = SchemaUpdateTypeInit,
              Init = \<lparr>SchemaName = ''orders_v'', Versions = [], ActiveVersionIdx = 0,
                      SchemaType = ''protobuf''\<rparr>\<rparr>]\<rparr>"
    using b by simp
  have c': "handleCreationResp ?e2 ?p [] conn0 =
     (Returns (Some (ErrorsNew ''producer name already exists'')), conn0)"
    using c by simp
  show ?thesis using j1 s1 a b' c' by (intro conjI) assumption+
qed

subsection \<open>The publish pipeline\<close>

text \<open>
  \<^verbatim>\<open>produce\<close> with a header map that has been made: the two provenance keys are
  written, then the message is validated, then published, then the acknowledgement is
  awaited unless the call is asynchronous. With the nil map the first write panics.
\<close>

lemma produce_unfold:
  assumes "MsgHeaders (OptMsgHeaders opts) = Some a"
  shows "produce env opts p c s =
    (case validateMsg env p (Message opts) c of
       Inl err \<Rightarrow> (Returns (Some err), c, with_provenance a c p s)
     | Inr dat \<Rightarrow>
        (case brokerPublish env
                \<lparr>Header = maps (with_provenance a c p s) a,
                 Subject = getInternalName env (stationName p) @ ''.final'',
                 Data = dat\<rparr> (time_Second * AckWaitSec opts) c of
           (Inl err, c') \<Rightarrow> (Returns (Some err), c', with_provenance a c p s)
         | (Inr paf, c') \<Rightarrow>
             (if AsyncProduce opts then Returns None else await_ack paf, c', with_provenance a c p s)))"
  using assms
  by (simp add: produce_def map_assign_def with_provenance_def header_of_def Let_def
           split: sum.split prod.split)

lemma produce_nil_headers:
  "MsgHeaders (OptMsgHeaders opts) = None \<Longrightarrow> produce env opts p c s = (Panics NilMapAssignment, c, s)"
  by (simp add: produce_def map_assign_def)

lemma validateMsg_upd_publish:
  "validateMsg (env\<lparr>brokerPublish := pub\<rparr>) p msg c = validateMsg env p msg c"
  by (simp add: validateMsg_def split: sum.split)

lemma validateMsg_unsupported:
  assumes "getSchemaDetails env (stationName p) c = Inr sd" and "schemaType sd = ''''"
    and "\<forall>bs. msg \<noteq> ByteSlice bs"
  shows "validateMsg env p msg c = Inl (ErrorsNew ''Unsupported message type'')"
  using assms by (cases msg) (simp_all add: validateMsg_def)

text \<open>
  Claim C1, as the code has it. On a station with no active schema (its schema type is
  the empty string), the validation of a \<^verbatim>\<open>[]byte\<close> payload succeeds with exactly
  those bytes, and the validation of a payload of any other type fails with the error
  \<^verbatim>\<open>Unsupported message type\<close>; \<^verbatim>\<open>produce\<close> on such a payload, with options
  whose header map has been made, returns that error, leaves the connection as it was
  and does so whatever the transport's publish function is: nothing is published.
\<close>

theorem produce_no_schema:
  assumes "getSchemaDetails env (stationName p) c = Inr sd" and "schemaType sd = ''''"
  shows "validateMsg env p (ByteSlice bs) c = Inr bs \<and>
         ((\<forall>bs'. msg \<noteq> ByteSlice bs') \<longrightarrow>
            validateMsg env p msg c = Inl (ErrorsNew ''Unsupported message type'') \<and>
            (Message opts = msg \<and> MsgHeaders (OptMsgHeaders opts) = Some a \<longrightarrow>
               produce env opts p c s =
                 (Returns (Some (ErrorsNew ''Unsupported message type'')), c, with_provenance a c p s) \<and>
               (\<forall>pub. produce (env\<lparr>brokerPublish := pub\<rparr>) opts p c s =
                 (Returns (Some (ErrorsNew ''Unsupported message type'')), c, with_provenance a c p s))))"
proof -
  have b: "validateMsg env p (ByteSlice bs) c = Inr bs"
    using assms by (simp add: validateMsg_def)
  have n: "produce env opts p c s =
                 (Returns (Some (ErrorsNew ''Unsupported message type'')), c, with_provenance a c p s) \<and>
               (\<forall>pub. produce (env\<lparr>brokerPublish := pub\<rparr>) opts p c s =
                 (Returns (Some (ErrorsNew ''Unsupported message type'')), c, with_provenance a c p s))"
    if m: "\<forall>bs'. msg \<noteq> ByteSlice bs'" and o: "Message opts = msg" and h: "MsgHeaders (OptMsgHeaders opts) = Some a"
  proof -
    have v: "validateMsg env p (Message opts) c = Inl (ErrorsNew ''Unsupported message type'')"
      using validateMsg_unsupported [OF assms m] o by simp
    show ?thesis
      by (simp add: produce_unfold [OF h] validateMsg_upd_publish v)
  qed
  from b n validateMsg_unsupported [OF assms] show ?thesis by blast
qed

text \<open>
  On the scripted transport, whose station \<^verbatim>\<open>orders\<close> has no schema: the bytes of
  \<^verbatim>\<open>hello\<close> validate to themselves, the string \<^verbatim>\<open>hello\<close> is refused, and
  \<^verbatim>\<open>Produce\<close> of the string with the default options returns the error with an empty
  log.
\<close>

theorem produce_no_schema_witness:
  "getSchemaDetails (scripted all_fine) (stationName \<lparr>Name = ''p1'', stationName = ''orders''\<rparr>) conn0 =
     Inr \<lparr>schemaType = ''''\<rparr> \<and>
   validateMsg (scripted all_fine) \<lparr>Name = ''p1'', stationName = ''orders''\<rparr>
     (ByteSlice [104, 101, 108, 108, 111]) conn0 = Inr [104, 101, 108, 108, 111] \<and>
   validateMsg (scripted all_fine) \<lparr>Name = ''p1'', stationName = ''orders''\<rparr>
     (StringVal ''hello'') conn0 = Inl (ErrorsNew ''Unsupported message type'') \<and>
   Produce (scripted all_fine) \<lparr>Name = ''p1'', stationName = ''orders''\<rparr> (StringVal ''hello'') [] conn0 store0 =
     (Returns (Some (ErrorsNew ''Unsupported message type'')), conn0,
      with_provenance 0 conn0 \<lparr>Name = ''p1'', stationName = ''orders''\<rparr> (snd (getDefaultProduceOpts store0))) \<and>
   brokerConn conn0 = []"
proof -
  let ?env = "scripted all_fine"
  let ?p = "\<lparr>Name = ''p1'', stationName = ''orders''\<rparr>"
  let ?s1 = "snd (getDefaultProduceOpts store0)"
  let ?opts = "(fst (getDefaultProduceOpts store0))\<lparr>Message := StringVal ''hello''\<rparr>"
  have g: "getSchemaDetails ?env (stationName ?p) conn0 = Inr \<lparr>schemaType = ''''\<rparr>"
    by (simp add: scripted_def all_fine_def)
  have e: "schemaType \<lparr>schemaType = ''''\<rparr> = ''''" by simp
  have m: "\<forall>bs'. StringVal ''hello'' \<noteq> ByteSlice bs'" by simp
  have o: "Message ?opts = StringVal ''hello''" by simp
  have h: "MsgHeaders (OptMsgHeaders ?opts) = Some 0"
    by (simp add: getDefaultProduceOpts_def make_map_def store0_def)
  note t = produce_no_schema [OF g e, of "[104, 101, 108, 108, 111]" "StringVal ''hello''" ?opts 0 ?s1]
  from t have a: "validateMsg ?env ?p (ByteSlice [104, 101, 108, 108, 111]) conn0 = Inr [104, 101, 108, 108, 111]"
    by blast
  from t m have b: "validateMsg ?env ?p (StringVal ''hello'') conn0 = Inl (ErrorsNew ''Unsupported message type'')"
    by blast
  from t m o h have c: "produce ?env ?opts ?p conn0 ?s1 =
       (Returns (Some (ErrorsNew ''Unsupported message type'')), conn0, with_provenance 0 conn0 ?p ?s1)"
    by blast
  have P: "Produce ?env ?p (StringVal ''hello'') [] conn0 store0 = produce ?env ?opts ?p conn0 ?s1"
    by (simp add: Produce_def case_prod_beta)
  have d: "Produce ?env ?p (StringVal ''hello'') [] conn0 store0 =
       (Returns (Some (ErrorsNew ''Unsupported message type'')), conn0, with_provenance 0 conn0 ?p ?s1)"
    using P c by simp
  have l: "brokerConn conn0 = []" by (simp add: conn0_def)
  show ?thesis using g a b d l by (intro conjI) assumption+
qed

text \<open>
  The claim as written, for every call, fails when the caller passes the zero value
  \<^verbatim>\<open>Headers{}\<close> as the headers: the station has no schema and the payload is an
  integer, but the write of line 256 to the nil map panics before the validation, and
  the call does not return the error.
\<close>

theorem produce_no_schema_counterexample:
  "getSchemaDetails (scripted all_fine) ''orders'' conn0 = Inr \<lparr>schemaType = ''''\<rparr> \<and>
   fst (Produce (scripted all_fine) \<lparr>Name = ''p1'', stationName = ''orders''\<rparr> (IntVal 42)
          [MsgHeaders_opt \<lparr>MsgHeaders = None\<rparr>] conn0 store0) = Panics NilMapAssignment \<and>
   fst (Produce (scripted all_fine) \<lparr>Name = ''p1'', stationName = ''orders''\<rparr> (IntVal 42)
          [MsgHeaders_opt \<lparr>MsgHeaders = None\<rparr>] conn0 store0)
     \<noteq> Returns (Some (ErrorsNew ''Unsupported message type''))"
  by (simp add: Produce_def getDefaultProduceOpts_def make_map_def MsgHeaders_opt_def
        produce_def map_assign_def scripted_def all_fine_def)

text \<open>
  Claim C5. Let the publish submission of a \<^verbatim>\<open>produce\<close> call succeed with the
  acknowledgement future \<open>paf\<close>. If the call is asynchronous it returns \<^verbatim>\<open>nil\<close>
  whatever \<open>paf\<close> is or becomes; if it is synchronous it returns \<^verbatim>\<open>nil\<close> when the
  future delivers the acknowledgement, the transport's error when it delivers an error,
  and does not return while it delivers neither. If the submission itself fails, the
  call returns the submission's error, in both modes.
\<close>

theorem produce_ack_modes:
  assumes "MsgHeaders (OptMsgHeaders opts) = Some a"
    and "validateMsg env p (Message opts) c = Inr dat"
  shows "(brokerPublish env
            \<lparr>Header = maps (with_provenance a c p s) a,
             Subject = getInternalName env (stationName p) @ ''.final'',
             Data = dat\<rparr> (time_Second * AckWaitSec opts) c = (Inr paf, c') \<longrightarrow>
            (AsyncProduce opts \<longrightarrow>
               produce env opts p c s = (Returns None, c', with_provenance a c p s)) \<and>
            (\<not> AsyncProduce opts \<and> paf = AckOk \<longrightarrow>
               produce env opts p c s = (Returns None, c', with_provenance a c p s)) \<and>
            (\<not> AsyncProduce opts \<and> paf = AckErr aerr \<longrightarrow>
               produce env opts p c s = (Returns (Some aerr), c', with_provenance a c p s)) \<and>
            (\<not> AsyncProduce opts \<and> paf = AckNever \<longrightarrow>
               produce env opts p c s = (Blocks, c', with_provenance a c p s))) \<and>
         (brokerPublish env
            \<lparr>Header = maps (with_provenance a c p s) a,
             Subject = getInternalName env (stationName p) @ ''.final'',
             Data = dat\<rparr> (time_Second * AckWaitSec opts) c = (Inl perr, c') \<longrightarrow>
            produce env opts p c s = (Returns (Some perr), c', with_provenance a c p s))"
  by (simp add: produce_unfold [OF assms(1)] assms(2) await_ack_def)

text \<open>
  On the scripted transport with a future that delivers a timeout error: the
  asynchronous call returns \<^verbatim>\<open>nil\<close>, the synchronous call returns the timeout, and
  the log has the one publish to \<^verbatim>\<open>orders.final\<close> with a wait of 5 seconds.
\<close>

theorem produce_ack_modes_witness:
  "validateMsg (scripted (all_fine\<lparr>ans_publish := Inr (AckErr (Foreign ''nats: timeout''))\<rparr>))
     \<lparr>Name = ''p1'', stationName = ''orders''\<rparr> (ByteSlice [104, 101, 108, 108, 111]) conn0 =
     Inr [104, 101, 108, 108, 111] \<and>
   fst (produce (scripted (all_fine\<lparr>ans_publish := Inr (AckErr (Foreign ''nats: timeout''))\<rparr>))
          \<lparr>Message = ByteSlice [104, 101, 108, 108, 111], AckWaitSec = 5,
           OptMsgHeaders = \<lparr>MsgHeaders = Some 0\<rparr>, AsyncProduce = True\<rparr>
          \<lparr>Name = ''p1'', stationName = ''orders''\<rparr> conn0 store0) = Returns None \<and>
   fst (produce (scripted (all_fine\<lparr>ans_publish := Inr (AckErr (Foreign ''nats: timeout''))\<rparr>))
          \<lparr>Message = ByteSlice [104, 101, 108, 108, 111], AckWaitSec = 5,
           OptMsgHeaders = \<lparr>MsgHeaders = Some 0\<rparr>, AsyncProduce = False\<rparr>
          \<lparr>Name = ''p1'', stationName = ''orders''\<rparr> conn0 store0) = Returns (Some (Foreign ''nats: timeout'')) \<and>
   brokerConn (fst (snd (produce (scripted (all_fine\<lparr>ans_publish := Inr (AckErr (Foreign ''nats: timeout''))\<rparr>))
          \<lparr>Message = ByteSlice [104, 101, 108, 108, 111], AckWaitSec = 5,
           OptMsgHeaders = \<lparr>MsgHeaders = Some 0\<rparr>, AsyncProduce = False\<rparr>
          \<lparr>Name = ''p1'', stationName = ''orders''\<rparr> conn0 store0))) =
     [Published ''orders.final'' [104, 101, 108, 108, 111] 5000000000]"
proof -
  let ?env = "scripted (all_fine\<lparr>ans_publish := Inr (AckErr (Foreign ''nats: timeout''))\<rparr>)"
  let ?p = "\<lparr>Name = ''p1'', stationName = ''orders''\<rparr>"
  let ?oa = "\<lparr>Message = ByteSlice [104, 101, 108, 108, 111], AckWaitSec = 5,
           OptMsgHeaders = \<lparr>MsgHeaders = Some 0\<rparr>, AsyncProduce = True\<rparr>"
  let ?os = "\<lparr>Message = ByteSlice [104, 101, 108, 108, 111], AckWaitSec = 5,
           OptMsgHeaders = \<lparr>MsgHeaders = Some 0\<rparr>, AsyncProduce = False\<rparr>"
  let ?m = "\<lparr>Header = maps (with_provenance 0 conn0 ?p store0) 0,
             Subject = getInternalName ?env (stationName ?p) @ ''.final'',
             Data = [104, 101, 108, 108, 111]\<rparr>"
  let ?c' = "snd (brokerPublish ?env ?m (time_Second * 5) conn0)"
  have ha: "MsgHeaders (OptMsgHeaders ?oa) = Some 0" by simp
  have hs: "MsgHeaders (OptMsgHeaders ?os) = Some 0" by simp
  have v: "validateMsg ?env ?p (ByteSlice [104, 101, 108, 108, 111]) conn0 = Inr [104, 101, 108, 108, 111]"
    by (simp add: validateMsg_def scripted_def all_fine_def)
  have va: "validateMsg ?env ?p (Message ?oa) conn0 = Inr [104, 101, 108, 108, 111]"
    using v by simp
  have vs: "validateMsg ?env ?p (Message ?os) conn0 = Inr [104, 101, 108, 108, 111]"
    using v by simp
  have pa: "brokerPublish ?env ?m (time_Second * AckWaitSec ?oa) conn0 =
              (Inr (AckErr (Foreign ''nats: timeout'')), ?c')"
    by (simp add: scripted_def all_fine_def)
  have ps: "brokerPublish ?env ?m (time_Second * AckWaitSec ?os) conn0 =
              (Inr (AckErr (Foreign ''nats: timeout'')), ?c')"
    by (simp add: scripted_def all_fine_def)
  have ta: "AsyncProduce ?oa" by simp
  have ts: "\<not> AsyncProduce ?os" by simp
  from produce_ack_modes [OF ha va, of store0 "AckErr (Foreign ''nats: timeout'')" ?c'] pa ta
  have a: "produce ?env ?oa ?p conn0 store0 = (Returns None, ?c', with_provenance 0 conn0 ?p store0)"
    by blast
  from produce_ack_modes [OF hs vs, of store0 "AckErr (Foreign ''nats: timeout'')" ?c' "Foreign ''nats: timeout''"] ps ts
  have b: "produce ?env ?os ?p conn0 store0 =
             (Returns (Some (Foreign ''nats: timeout'')), ?c', with_provenance 0 conn0 ?p store0)"
    by blast
  have a': "fst (produce ?env ?oa ?p conn0 store0) = Returns None"
    unfolding a by simp
  have b': "fst (produce ?env ?os ?p conn0 store0) = Returns (Some (Foreign ''nats: timeout''))"
    unfolding b by simp
  have c: "brokerConn (fst (snd (produce ?env ?os ?p conn0 store0))) =
     [Published ''orders.final'' [104, 101, 108, 108, 111] 5000000000]"
    unfolding b
    by (simp add: scripted_def all_fine_def log_call_def conn0_def time_Second_def)
  show ?thesis using v a' b' c by (intro conjI) assumption+
qed

text \<open>
  The conversion of line 270 in 64 bits: for a wait from 0 to 9 223 372 036 seconds the
  duration is that many seconds in nanoseconds; one second more and the product wraps
  to a negative duration.
\<close>

lemma stallWait_exact:
  fixes w :: "64 word"
  assumes "0 \<le> sint w" and "sint w \<le> 9223372036"
  shows "sint (time_Second * w) = 1000000000 * sint w"
proof -
  have s: "sint (time_Second :: 64 word) = 1000000000"
    by (simp add: time_Second_def)
  have lo: "- (2 ^ 63) \<le> 1000000000 * sint w" using assms by simp
  have hi: "1000000000 * sint w < 2 ^ 63" using assms by simp
  have "sint (time_Second * w) = signed_take_bit 63 (sint time_Second * sint w)"
    by (simp add: sint_word_ariths)
  also have "\<dots> = signed_take_bit 63 (1000000000 * sint w)" by (simp add: s)
  also have "\<dots> = 1000000000 * sint w"
    using lo hi by (simp add: signed_take_bit_int_eq_self)
  finally show ?thesis .
qed

lemma stallWait_wraps: "sint (time_Second * (9223372037 :: 64 word)) < 0"
  by (simp add: time_Second_def)

text \<open>
  Claim C9. The default options of \<^verbatim>\<open>Produce\<close> have an acknowledgement wait of 15
  seconds, synchronous completion, and a header map that is not nil and is empty (a
  new object of the store). The duration for 15 seconds is 15 000 000 000 nanoseconds.
  A \<^verbatim>\<open>produce\<close> call that reaches the publish calls the transport with the
  duration \<^verbatim>\<open>time.Second * AckWaitSec\<close> as the stall wait: whatever the publish
  function is, the call's result is that function's result at the message and this
  duration.
\<close>

theorem default_produce_opts:
  "AckWaitSec (fst (getDefaultProduceOpts s)) = 15 \<and>
   \<not> AsyncProduce (fst (getDefaultProduceOpts s)) \<and>
   MsgHeaders (OptMsgHeaders (fst (getDefaultProduceOpts s))) = Some (nextRef s) \<and>
   maps (snd (getDefaultProduceOpts s)) (nextRef s) = Map.empty \<and>
   time_Second * AckWaitSec (fst (getDefaultProduceOpts s)) = 15000000000 \<and>
   sint (time_Second * AckWaitSec (fst (getDefaultProduceOpts s))) = 15 * 1000000000 \<and>
   (MsgHeaders (OptMsgHeaders opts) = Some a \<and> validateMsg env p (Message opts) c = Inr dat \<longrightarrow>
      (\<forall>pub. produce (env\<lparr>brokerPublish := pub\<rparr>) opts p c st =
         (case pub \<lparr>Header = maps (with_provenance a c p st) a,
                     Subject = getInternalName env (stationName p) @ ''.final'',
                     Data = dat\<rparr> (time_Second * AckWaitSec opts) c of
            (Inl err, c') \<Rightarrow> (Returns (Some err), c', with_provenance a c p st)
          | (Inr paf, c') \<Rightarrow>
              (if AsyncProduce opts then Returns None else await_ack paf, c', with_provenance a c p st))))"
proof -
  have d: "AckWaitSec (fst (getDefaultProduceOpts s)) = 15 \<and>
   \<not> AsyncProduce (fst (getDefaultProduceOpts s)) \<and>
   MsgHeaders (OptMsgHeaders (fst (getDefaultProduceOpts s))) = Some (nextRef s) \<and>
   maps (snd (getDefaultProduceOpts s)) (nextRef s) = Map.empty"
    by (simp add: getDefaultProduceOpts_def make_map_def)
  have w: "time_Second * AckWaitSec (fst (getDefaultProduceOpts s)) = 15000000000"
    by (simp add: getDefaultProduceOpts_def make_map_def time_Second_def)
  have i: "sint (time_Second * AckWaitSec (fst (getDefaultProduceOpts s))) = 15 * 1000000000"
    unfolding w by simp
  have q: "\<forall>pub. produce (env\<lparr>brokerPublish := pub\<rparr>) opts p c st =
         (case pub \<lparr>Header = maps (with_provenance a c p st) a,
                     Subject = getInternalName env (stationName p) @ ''.final'',
                     Data = dat\<rparr> (time_Second * AckWaitSec opts) c of
            (Inl err, c') \<Rightarrow> (Returns (Some err), c', with_provenance a c p st)
          | (Inr paf, c') \<Rightarrow>
              (if AsyncProduce opts then Returns None else await_ack paf, c', with_provenance a c p st))"
    if h: "MsgHeaders (OptMsgHeaders opts) = Some a" and v: "validateMsg env p (Message opts) c = Inr dat"
    by (simp add: produce_unfold [OF h] validateMsg_upd_publish v)
  from d w i q show ?thesis by blast
qed

text \<open>
  On the scripted transport: \<^verbatim>\<open>Produce\<close> of the bytes of \<^verbatim>\<open>hello\<close> with no
  option publishes once, with a stall wait of 15 000 000 000 nanoseconds.
\<close>

theorem default_produce_opts_witness:
  "MsgHeaders (OptMsgHeaders ((fst (getDefaultProduceOpts store0))\<lparr>Message := ByteSlice [104, 101, 108, 108, 111]\<rparr>)) =
     Some 0 \<and>
   validateMsg (scripted all_fine) \<lparr>Name = ''p1'', stationName = ''orders''\<rparr>
     (ByteSlice [104, 101, 108, 108, 111]) conn0 = Inr [104, 101, 108, 108, 111] \<and>
   fst (Produce (scripted all_fine) \<lparr>Name = ''p1'', stationName = ''orders''\<rparr>
          (ByteSlice [104, 101, 108, 108, 111]) [] conn0 store0) = Returns None \<and>
   brokerConn (fst (snd (Produce (scripted all_fine) \<lparr>Name = ''p1'', stationName = ''orders''\<rparr>
          (ByteSlice [104, 101, 108, 108, 111]) [] conn0 store0))) =
     [Published ''orders.final'' [104, 101, 108, 108, 111] 15000000000]"
proof -
  let ?env = "scripted all_fine"
  let ?p = "\<lparr>Name = ''p1'', stationName = ''orders''\<rparr>"
  let ?s1 = "snd (getDefaultProduceOpts store0)"
  let ?opts = "(fst (getDefaultProduceOpts store0))\<lparr>Message := ByteSlice [104, 101, 108, 108, 111]\<rparr>"
  have h: "MsgHeaders (OptMsgHeaders ?opts) = Some 0"
    by (simp add: getDefaultProduceOpts_def make_map_def store0_def)
  have v: "validateMsg ?env ?p (ByteSlice [104, 101, 108, 108, 111]) conn0 = Inr [104, 101, 108, 108, 111]"
    by (simp add: validateMsg_def scripted_def all_fine_def)
  have v': "validateMsg ?env ?p (Message ?opts) conn0 = Inr [104, 101, 108, 108, 111]"
    using v by simp
  have w: "AckWaitSec ?opts = 15 \<and> \<not> AsyncProduce ?opts"
    by (simp add: getDefaultProduceOpts_def make_map_def)
  have u: "?env\<lparr>brokerPublish := brokerPublish ?env\<rparr> = ?env" by simp
  from default_produce_opts [of store0 ?opts 0 ?env ?p conn0 "[104, 101, 108, 108, 111]" ?s1] h v'
  have q: "\<forall>pub. produce (?env\<lparr>brokerPublish := pub\<rparr>) ?opts ?p conn0 ?s1 =
         (case pub \<lparr>Header = maps (with_provenance 0 conn0 ?p ?s1) 0,
                     Subject = getInternalName ?env (stationName ?p) @ ''.final'',
                     Data = [104, 101, 108, 108, 111]\<rparr> (time_Second * AckWaitSec ?opts) conn0 of
            (Inl err, c') \<Rightarrow> (Returns (Some err), c', with_provenance 0 conn0 ?p ?s1)
          | (Inr paf, c') \<Rightarrow>
              (if AsyncProduce ?opts then Returns None else await_ack paf, c', with_provenance 0 conn0 ?p ?s1))"
    by blast
  have r: "produce ?env ?opts ?p conn0 ?s1 =
         (case brokerPublish ?env \<lparr>Header = maps (with_provenance 0 conn0 ?p ?s1) 0,
                     Subject = getInternalName ?env (stationName ?p) @ ''.final'',
                     Data = [104, 101, 108, 108, 111]\<rparr> (time_Second * AckWaitSec ?opts) conn0 of
            (Inl err, c') \<Rightarrow> (Returns (Some err), c', with_provenance 0 conn0 ?p ?s1)
          | (Inr paf, c') \<Rightarrow>
              (if AsyncProduce ?opts then Returns None else await_ack paf, c', with_provenance 0 conn0 ?p ?s1))"
    using q [rule_format, of "brokerPublish ?env"] u by simp
  have P: "Produce ?env ?p (ByteSlice [104, 101, 108, 108, 111]) [] conn0 store0 =
             produce ?env ?opts ?p conn0 ?s1"
    by (simp add: Produce_def case_prod_beta)
  have a: "fst (Produce ?env ?p (ByteSlice [104, 101, 108, 108, 111]) [] conn0 store0) = Returns None"
    unfolding P r using w
    by (simp add: scripted_def all_fine_def await_ack_def)
  have b: "brokerConn (fst (snd (Produce ?env ?p (ByteSlice [104, 101, 108, 108, 111]) [] conn0 store0))) =
     [Published ''orders.final'' [104, 101, 108, 108, 111] 15000000000]"
    unfolding P r using w
    by (simp add: scripted_def all_fine_def await_ack_def log_call_def conn0_def time_Second_def)
  show ?thesis using h v a b by (intro conjI) assumption+
qed

text \<open>
  Claim C10, as the code has it. When the \<^verbatim>\<open>Headers\<close> of the options hold the map object \<open>a\<close>,
  then after \<^verbatim>\<open>produce\<close>, however it ends, that object has
  \<^verbatim>\<open>$memphis_connectionId\<close> mapped to the connection's identifier and
  \<^verbatim>\<open>$memphis_producedBy\<close> mapped to the producer's name, every other key of it and
  every other map are as before; when the validation fails, the call returns the
  validation's error in the store with those two writes, which are not undone. The
  same holds for the map of a \<^verbatim>\<open>Headers\<close> that a caller made earlier and passes to
  \<^verbatim>\<open>Produce\<close> with the option \<^verbatim>\<open>MsgHeaders\<close>: the option copies the reference,
  and the caller's map is the one written.
\<close>

theorem produce_headers_in_place:
  assumes "MsgHeaders hdr = Some a" and "OptMsgHeaders opts = hdr"
  shows "maps (snd (snd (produce env opts p c s))) a =
           (maps s a)(''$memphis_connectionId'' \<mapsto> [ConnId c], ''$memphis_producedBy'' \<mapsto> [Name p]) \<and>
         (\<forall>k. k \<noteq> ''$memphis_connectionId'' \<and> k \<noteq> ''$memphis_producedBy'' \<longrightarrow>
              maps (snd (snd (produce env opts p c s))) a k = maps s a k) \<and>
         (\<forall>b. b \<noteq> a \<longrightarrow> maps (snd (snd (produce env opts p c s))) b = maps s b) \<and>
         (validateMsg env p (Message opts) c = Inl err \<longrightarrow>
            produce env opts p c s = (Returns (Some err), c, with_provenance a c p s)) \<and>
         (a < nextRef s \<longrightarrow>
            maps (snd (snd (Produce env p msg [MsgHeaders_opt hdr] c s))) a =
              (maps s a)(''$memphis_connectionId'' \<mapsto> [ConnId c], ''$memphis_producedBy'' \<mapsto> [Name p]))"
proof -
  have h: "MsgHeaders (OptMsgHeaders opts) = Some a" using assms by simp
  have st: "snd (snd (produce env opts' p c s')) = with_provenance a c p s'"
    if "MsgHeaders (OptMsgHeaders opts') = Some a" for opts' s'
    by (simp add: produce_unfold [OF that] split: sum.split prod.split)
  have 1: "maps (snd (snd (produce env opts p c s))) a =
           (maps s a)(''$memphis_connectionId'' \<mapsto> [ConnId c], ''$memphis_producedBy'' \<mapsto> [Name p])"
    by (simp add: st [OF h] with_provenance_def)
  have 2: "\<forall>k. k \<noteq> ''$memphis_connectionId'' \<and> k \<noteq> ''$memphis_producedBy'' \<longrightarrow>
              maps (snd (snd (produce env opts p c s))) a k = maps s a k"
    by (simp add: st [OF h] with_provenance_def)
  have 3: "\<forall>b. b \<noteq> a \<longrightarrow> maps (snd (snd (produce env opts p c s))) b = maps s b"
    by (simp add: st [OF h] with_provenance_def)
  have 4: "validateMsg env p (Message opts) c = Inl err \<longrightarrow>
            produce env opts p c s = (Returns (Some err), c, with_provenance a c p s)"
    by (simp add: produce_unfold [OF h])
  have 5: "maps (snd (snd (Produce env p msg [MsgHeaders_opt hdr] c s))) a =
              (maps s a)(''$memphis_connectionId'' \<mapsto> [ConnId c], ''$memphis_producedBy'' \<mapsto> [Name p])"
    if lt: "a < nextRef s"
  proof -
    let ?d = "fst (getDefaultProduceOpts s)"
    let ?s' = "snd (getDefaultProduceOpts s)"
    let ?o = "?d\<lparr>Message := msg, OptMsgHeaders := hdr\<rparr>"
    have ap: "applyProduceOpts [MsgHeaders_opt hdr] (?d\<lparr>Message := msg\<rparr>) = Inr ?o"
      by (simp add: MsgHeaders_opt_def)
    have P: "Produce env p msg [MsgHeaders_opt hdr] c s = produce env ?o p c ?s'"
      by (simp add: Produce_def case_prod_beta ap)
    have ho: "MsgHeaders (OptMsgHeaders ?o) = Some a" using assms by simp
    have ne: "a \<noteq> nextRef s" using lt by simp
    have m: "maps ?s' a = maps s a"
      using ne by (simp add: getDefaultProduceOpts_def make_map_def)
    show ?thesis
      by (simp add: P st [OF ho] with_provenance_def m)
  qed
  from 1 2 3 4 5 show ?thesis by blast
qed

text \<open>
  A caller makes a \<^verbatim>\<open>Headers\<close>, adds \<^verbatim>\<open>trace-id\<close>, and produces a string to
  the station without schema: the call fails with \<^verbatim>\<open>Unsupported message type\<close>, and
  the caller's map now holds \<^verbatim>\<open>trace-id\<close> and the two reserved keys.
\<close>

theorem produce_headers_in_place_witness:
  "MsgHeaders \<lparr>MsgHeaders = Some 0\<rparr> = Some 0 \<and>
   maps (snd (Add \<lparr>MsgHeaders = Some 0\<rparr> ''trace-id'' ''42'' (snd (New \<lparr>MsgHeaders = None\<rparr> store0)))) 0 ''trace-id'' =
     Some [''42''] \<and>
   fst (Produce (scripted all_fine) \<lparr>Name = ''p1'', stationName = ''orders''\<rparr> (StringVal ''hello'')
          [MsgHeaders_opt \<lparr>MsgHeaders = Some 0\<rparr>] conn0
          (snd (Add \<lparr>MsgHeaders = Some 0\<rparr> ''trace-id'' ''42'' (snd (New \<lparr>MsgHeaders = None\<rparr> store0))))) =
     Returns (Some (ErrorsNew ''Unsupported message type'')) \<and>
   maps (snd (snd (Produce (scripted all_fine) \<lparr>Name = ''p1'', stationName = ''orders''\<rparr> (StringVal ''hello'')
          [MsgHeaders_opt \<lparr>MsgHeaders = Some 0\<rparr>] conn0
          (snd (Add \<lparr>MsgHeaders = Some 0\<rparr> ''trace-id'' ''42'' (snd (New \<lparr>MsgHeaders = None\<rparr> store0))))))) 0 =
     [''trace-id'' \<mapsto> [''42''], ''$memphis_connectionId'' \<mapsto> [''conn-1''], ''$memphis_producedBy'' \<mapsto> [''p1'']]"
proof -
  let ?env = "scripted all_fine"
  let ?p = "\<lparr>Name = ''p1'', stationName = ''orders''\<rparr>"
  let ?hdr = "\<lparr>MsgHeaders = Some 0\<rparr>"
  let ?s2 = "snd (Add ?hdr ''trace-id'' ''42'' (snd (New \<lparr>MsgHeaders = None\<rparr> store0)))"
  let ?opts = "\<lparr>Message = StringVal ''hello'', AckWaitSec = 15, OptMsgHeaders = ?hdr, AsyncProduce = False\<rparr>"
  have h: "MsgHeaders ?hdr = Some 0" by simp
  have o: "OptMsgHeaders ?opts = ?hdr" by simp
  have m2: "maps ?s2 0 = [''trace-id'' \<mapsto> [''42'']]"
    by (simp add: Add_def validateHeaderKey_def map_assign_def New_def make_map_def store0_def)
  have n2: "(0::nat) < nextRef ?s2"
    by (simp add: Add_def validateHeaderKey_def map_assign_def New_def make_map_def store0_def)
  from produce_headers_in_place [OF h o, of ?env ?p conn0 ?s2 _ "StringVal ''hello''"] n2
  have a: "maps (snd (snd (Produce ?env ?p (StringVal ''hello'') [MsgHeaders_opt ?hdr] conn0 ?s2))) 0 =
              (maps ?s2 0)(''$memphis_connectionId'' \<mapsto> [ConnId conn0], ''$memphis_producedBy'' \<mapsto> [Name ?p])"
    by blast
  have a': "maps (snd (snd (Produce ?env ?p (StringVal ''hello'') [MsgHeaders_opt ?hdr] conn0 ?s2))) 0 =
     [''trace-id'' \<mapsto> [''42''], ''$memphis_connectionId'' \<mapsto> [''conn-1''], ''$memphis_producedBy'' \<mapsto> [''p1'']]"
    unfolding a m2 by (simp add: conn0_def)
  have t: "maps ?s2 0 ''trace-id'' = Some [''42'']"
    unfolding m2 by simp
  have f: "fst (Produce ?env ?p (StringVal ''hello'') [MsgHeaders_opt ?hdr] conn0 ?s2) =
     Returns (Some (ErrorsNew ''Unsupported message type''))"
    by (simp add: Produce_def case_prod_beta MsgHeaders_opt_def getDefaultProduceOpts_def make_map_def
          produce_def map_assign_def validateMsg_def scripted_def all_fine_def)
  show ?thesis using h t f a' by (intro conjI) assumption+
qed

text \<open>
  The claim as written, for every \<^verbatim>\<open>Headers\<close> a caller can supply, fails on the zero
  value \<^verbatim>\<open>Headers{}\<close>: its map is nil, \<^verbatim>\<open>produce\<close> of the bytes of \<^verbatim>\<open>hello\<close> panics
  at the first write, the store is as before, and the caller's \<^verbatim>\<open>Headers\<close> has neither
  reserved key.
\<close>

theorem produce_headers_in_place_counterexample:
  "produce (scripted all_fine)
     \<lparr>Message = ByteSlice [104, 101, 108, 108, 111], AckWaitSec = 15,
      OptMsgHeaders = \<lparr>MsgHeaders = None\<rparr>, AsyncProduce = False\<rparr>
     \<lparr>Name = ''p1'', stationName = ''orders''\<rparr> conn0 store0 =
     (Panics NilMapAssignment, conn0, store0) \<and>
   header_of (MsgHeaders \<lparr>MsgHeaders = None\<rparr>) store0 ''$memphis_connectionId'' = None \<and>
   header_of (MsgHeaders \<lparr>MsgHeaders = None\<rparr>) store0 ''$memphis_producedBy'' = None"
  by (simp add: produce_def map_assign_def header_of_def)

end
